theory Spec2Isabelle
  imports Complex_Main "HOL-Library.AList"
begin

section \<open>Data model\<close>

text \<open>
  JSON-schema values as the Python code builds them: strings, lists and dictionaries.
  A Python dictionary keeps its keys in insertion order, and assigning to a key that is
  already present keeps the key's position; \<open>AList.update\<close> does the same on an
  association list, \<open>map_of\<close> is the lookup.
\<close>

datatype json = JStr string | JList "json list" | JObj "(string \<times> json) list"

type_synonym schema = "(string \<times> json) list"

text \<open>Values stored in Singer metadata: strings and booleans.\<close>

datatype mdval = MStr string | MBool bool

text \<open>
  Compiled metadata: a dictionary from breadcrumbs (tuples of strings) to dictionaries of
  metadata keys.
\<close>

type_synonym mdata = "(string list \<times> (string \<times> mdval) list) list"

text \<open>The exceptions the module raises or lets through.\<close>

datatype quota_check = TotalQuota | PerRunQuota

datatype error =
    TapSalesforceExceptionError string
  | TapSalesforceQuotaExceededError quota_check
  | SFDCCustomNotAcceptableError
  | ConnectionError
  | HTTPError nat
  | KeyError
  | TypeError
  | ZeroDivisionError
  | OverflowError
  | ValueError

text \<open>A remote field descriptor: the keys \<open>"name"\<close> and \<open>"type"\<close> that the mapper reads.\<close>

record field =
  name :: string
  type :: string

section \<open>Type vocabulary\<close>

definition STRING_TYPES :: "string list" where
  "STRING_TYPES =
     [''id'', ''string'', ''picklist'', ''textarea'', ''phone'', ''url'', ''reference'',
      ''multipicklist'', ''combobox'', ''encryptedstring'', ''email'', ''complexvalue'',
      ''masterrecord'', ''datacategorygroupreference'', ''base64'']"

definition NUMBER_TYPES :: "string list" where
  "NUMBER_TYPES = [''double'', ''currency'', ''percent'']"

definition DATE_TYPES :: "string list" where
  "DATE_TYPES = [''datetime'', ''date'']"

definition BINARY_TYPES :: "string list" where
  "BINARY_TYPES = [''byte'']"

definition LOOSE_TYPES :: "string list" where
  "LOOSE_TYPES = [''anyType'', ''calculated'']"

section \<open>Schema mapper\<close>

text \<open>
  Modelled from the spec: \<open>metadata.write\<close> of the Singer library, which is not part of
  this repository. It stores value \<open>val\<close> under key \<open>k\<close> in the dictionary found at
  \<open>breadcrumb\<close>, creating that dictionary when the breadcrumb is new, and returns the
  metadata (the "metadata patch" of the schema mapper).
\<close>

definition metadata_write :: "mdata \<Rightarrow> string list \<Rightarrow> string \<Rightarrow> mdval \<Rightarrow> mdata" where
  "metadata_write compiled_metadata breadcrumb k val =
     (case map_of compiled_metadata breadcrumb of
        Some d \<Rightarrow> AList.update breadcrumb (AList.update k val d) compiled_metadata
      | None \<Rightarrow> AList.update breadcrumb [(k, val)] compiled_metadata)"

text \<open>
  The statement after the \<open>if\<close>/\<open>elif\<close> chain of \<open>field_to_property_schema\<close>
  ("The nillable field cannot be trusted"). Reading \<open>property_schema["type"]\<close> raises
  \<open>KeyError\<close> when the key is missing.
\<close>

definition nillable :: "string \<Rightarrow> string \<Rightarrow> schema \<Rightarrow> mdata \<Rightarrow> error + (schema \<times> mdata)" where
  "nillable field_name sf_type property_schema mdata =
     (if field_name \<noteq> ''Id'' \<and> sf_type \<noteq> ''location'' \<and> sf_type \<notin> set DATE_TYPES
      then (case map_of property_schema ''type'' of
              None \<Rightarrow> Inl KeyError
            | Some t \<Rightarrow>
                Inr (AList.update ''type'' (JList [JStr ''null'', t]) property_schema, mdata))
      else Inr (property_schema, mdata))"

definition null_string :: json where
  "null_string = JObj [(''type'', JList [JStr ''null'', JStr ''string''])]"

definition null_number :: json where
  "null_number = JObj [(''type'', JList [JStr ''null'', JStr ''number''])]"

definition field_to_property_schema :: "field \<Rightarrow> mdata \<Rightarrow> error + (schema \<times> mdata)" where
  "field_to_property_schema field mdata =
     (let property_schema = [];
          field_name = name field;
          sf_type = type field
      in
        if sf_type \<in> set STRING_TYPES then
          nillable field_name sf_type
            (AList.update ''type'' (JStr ''string'') property_schema) mdata
        else if sf_type \<in> set DATE_TYPES then
          (let date_type = JObj [(''type'', JStr ''string''), (''format'', JStr ''date-time'')];
               string_type = JObj [(''type'', JList [JStr ''string'', JStr ''null''])]
           in nillable field_name sf_type
                (AList.update ''anyOf'' (JList [date_type, string_type]) property_schema) mdata)
        else if sf_type = ''boolean'' then
          nillable field_name sf_type
            (AList.update ''type'' (JStr ''boolean'') property_schema) mdata
        else if sf_type \<in> set NUMBER_TYPES then
          nillable field_name sf_type
            (AList.update ''type'' (JStr ''number'') property_schema) mdata
        else if sf_type = ''address'' then
          nillable field_name sf_type
            (AList.update ''properties''
               (JObj [(''street'', null_string),
                      (''state'', null_string),
                      (''postalCode'', null_string),
                      (''city'', null_string),
                      (''country'', null_string),
                      (''longitude'', null_number),
                      (''latitude'', null_number),
                      (''geocodeAccuracy'', null_string)])
               (AList.update ''type'' (JStr ''object'') property_schema)) mdata
        else if sf_type \<in> set [''int'', ''long''] then
          nillable field_name sf_type
            (AList.update ''type'' (JStr ''integer'') property_schema) mdata
        else if sf_type = ''time'' then
          nillable field_name sf_type
            (AList.update ''type'' (JStr ''string'') property_schema) mdata
        else if sf_type \<in> set LOOSE_TYPES then
          Inr (property_schema, mdata)
        else if sf_type \<in> set BINARY_TYPES then
          (let mdata1 = metadata_write mdata [''properties'', field_name]
                          ''inclusion'' (MStr ''unsupported'');
               mdata2 = metadata_write mdata1 [''properties'', field_name]
                          ''unsupported-description'' (MStr ''binary data'')
           in Inr (property_schema, mdata2))
        else if sf_type = ''location'' then
          nillable field_name sf_type
            (AList.update ''properties''
               (JObj [(''longitude'', null_number),
                      (''latitude'', null_number)])
               (AList.update ''type''
                  (JList [JStr ''number'', JStr ''object'', JStr ''null'']) property_schema))
            mdata
        else if sf_type = ''json'' then
          nillable field_name sf_type
            (AList.update ''type'' (JStr ''string'') property_schema) mdata
        else Inl (TapSalesforceExceptionError (''Found unsupported type: '' @ sf_type)))"

subsection \<open>The mapping table as the specification words it\<close>

text \<open>
  One row of the table of section 4.3: the remote type tags, the fragment they map to,
  and the reason when the row marks the field unsupported.
\<close>

record spec_row =
  tags :: "string list"
  fragment :: schema
  unsupported_reason :: "string option"

definition spec_nullable_string :: json where
  "spec_nullable_string = JObj [(''type'', JList [JStr ''null'', JStr ''string''])]"

definition spec_nullable_number :: json where
  "spec_nullable_number = JObj [(''type'', JList [JStr ''null'', JStr ''number''])]"

definition spec_table :: "spec_row list" where
  "spec_table =
     [\<lparr>tags = [''id'', ''string'', ''picklist'', ''textarea'', ''phone'', ''url'',
               ''reference'', ''multipicklist'', ''combobox'', ''encryptedstring'',
               ''email'', ''complexvalue'', ''masterrecord'',
               ''datacategorygroupreference'', ''base64''],
       fragment = [(''type'', JStr ''string'')],
       unsupported_reason = None\<rparr>,
      \<lparr>tags = [''datetime'', ''date''],
       fragment =
         [(''anyOf'',
           JList [JObj [(''type'', JStr ''string''), (''format'', JStr ''date-time'')],
                  JObj [(''type'', JList [JStr ''string'', JStr ''null''])]])],
       unsupported_reason = None\<rparr>,
      \<lparr>tags = [''boolean''],
       fragment = [(''type'', JStr ''boolean'')],
       unsupported_reason = None\<rparr>,
      \<lparr>tags = [''double'', ''currency'', ''percent''],
       fragment = [(''type'', JStr ''number'')],
       unsupported_reason = None\<rparr>,
      \<lparr>tags = [''int'', ''long''],
       fragment = [(''type'', JStr ''integer'')],
       unsupported_reason = None\<rparr>,
      \<lparr>tags = [''time'', ''json''],
       fragment = [(''type'', JStr ''string'')],
       unsupported_reason = None\<rparr>,
      \<lparr>tags = [''address''],
       fragment =
         [(''type'', JStr ''object''),
          (''properties'',
           JObj [(''street'', spec_nullable_string),
                 (''state'', spec_nullable_string),
                 (''postalCode'', spec_nullable_string),
                 (''city'', spec_nullable_string),
                 (''country'', spec_nullable_string),
                 (''longitude'', spec_nullable_number),
                 (''latitude'', spec_nullable_number),
                 (''geocodeAccuracy'', spec_nullable_string)])],
       unsupported_reason = None\<rparr>,
      \<lparr>tags = [''location''],
       fragment =
         [(''type'', JList [JStr ''number'', JStr ''object'', JStr ''null'']),
          (''properties'',
           JObj [(''longitude'', spec_nullable_number),
                 (''latitude'', spec_nullable_number)])],
       unsupported_reason = None\<rparr>,
      \<lparr>tags = [''anyType'', ''calculated''],
       fragment = [],
       unsupported_reason = None\<rparr>,
      \<lparr>tags = [''byte''],
       fragment = [],
       unsupported_reason = Some ''binary data''\<rparr>]"

definition spec_lookup :: "string \<Rightarrow> spec_row option" where
  "spec_lookup tag = find (\<lambda>row. tag \<in> set (tags row)) spec_table"

text \<open>
  The general nullability rule of section 4.3: outside the primary key, \<open>location\<close> and
  the date/time types, the fragment's type becomes a union with the null marker.
\<close>

definition spec_nullability :: "string \<Rightarrow> string \<Rightarrow> schema \<Rightarrow> schema" where
  "spec_nullability field_name tag frag =
     (if field_name = ''Id'' \<or> tag = ''location'' \<or> tag = ''datetime'' \<or> tag = ''date''
      then frag
      else map (\<lambda>(k, v). if k = ''type'' then (k, JList [JStr ''null'', v]) else (k, v))
             frag)"

definition spec_patch :: "string \<Rightarrow> string option \<Rightarrow> mdata \<Rightarrow> mdata" where
  "spec_patch field_name reason mdata =
     (case reason of
        None \<Rightarrow> mdata
      | Some r \<Rightarrow>
          metadata_write
            (metadata_write mdata [''properties'', field_name] ''inclusion''
               (MStr ''unsupported''))
            [''properties'', field_name] ''unsupported-description'' (MStr r))"

definition spec_mapField :: "field \<Rightarrow> mdata \<Rightarrow> error + (schema \<times> mdata)" where
  "spec_mapField descriptor mdata =
     (case spec_lookup (type descriptor) of
        None \<Rightarrow>
          Inl (TapSalesforceExceptionError (''Found unsupported type: '' @ type descriptor))
      | Some row \<Rightarrow>
          Inr (spec_nullability (name descriptor) (type descriptor) (fragment row),
               spec_patch (name descriptor) (unsupported_reason row) mdata))"

section \<open>Blacklist policy\<close>

definition BULK_API_TYPE :: string where "BULK_API_TYPE = ''BULK''"
definition BULK2_API_TYPE :: string where "BULK2_API_TYPE = ''BULK2''"
definition REST_API_TYPE :: string where "REST_API_TYPE = ''REST''"

definition UNSUPPORTED_BULK_API_SALESFORCE_OBJECTS :: "string list" where
  "UNSUPPORTED_BULK_API_SALESFORCE_OBJECTS =
     [''AssetTokenEvent'', ''AttachedContentNote'', ''EventWhoRelation'',
      ''QuoteTemplateRichTextData'', ''TaskWhoRelation'', ''SolutionStatus'',
      ''ContractStatus'', ''RecentlyViewed'', ''DeclinedEventRelation'',
      ''AcceptedEventRelation'', ''TaskStatus'', ''PartnerRole'', ''TaskPriority'',
      ''CaseStatus'', ''UndecidedEventRelation'', ''OrderStatus'']"

definition QUERY_RESTRICTED_SALESFORCE_OBJECTS :: "string list" where
  "QUERY_RESTRICTED_SALESFORCE_OBJECTS =
     [''Announcement'', ''CollaborationGroupRecord'', ''Vote'', ''IdeaComment'',
      ''FieldDefinition'', ''PlatformAction'', ''UserEntityAccess'', ''RelationshipInfo'',
      ''ContentFolderMember'', ''ContentFolderItem'', ''SearchLayout'', ''SiteDetail'',
      ''EntityParticle'', ''OwnerChangeOptionInfo'', ''DataStatistics'',
      ''UserFieldAccess'', ''PicklistValueInfo'', ''RelationshipDomain'', ''FlexQueueItem'',
      ''NetworkUserHistoryRecent'', ''FieldHistoryArchive'', ''RecordActionHistory'',
      ''FlowVersionView'', ''FlowVariableView'', ''AppTabMember'', ''ColorDefinition'',
      ''IconDefinition'']"

definition QUERY_INCOMPATIBLE_SALESFORCE_OBJECTS :: "string list" where
  "QUERY_INCOMPATIBLE_SALESFORCE_OBJECTS =
     [''DataType'', ''ListViewChartInstance'', ''FeedLike'', ''OutgoingEmail'',
      ''OutgoingEmailRelation'', ''FeedSignal'', ''ActivityHistory'', ''EmailStatus'',
      ''UserRecordAccess'', ''Name'', ''AggregateResult'', ''OpenActivity'',
      ''ProcessInstanceHistory'', ''OwnedContentDocument'', ''FolderedContentDocument'',
      ''FeedTrackedChange'', ''CombinedAttachment'', ''AttachedContentDocument'',
      ''ContentBody'', ''NoteAndAttachment'', ''LookedUpFromActivity'',
      ''AttachedContentNote'', ''QuoteTemplateRichTextData'']"

section \<open>Python numbers\<close>

text \<open>
  The quota percentages are either the integer defaults or the result of \<open>float(...)\<close>,
  and the quota arithmetic uses true division, so it runs on IEEE 754 binary64 values.
  A float is modelled by the rational it denotes, or an infinity, or NaN (the sign of zero
  is not kept: no operation below observes it). \<open>round_double\<close> rounds a rational to the
  nearest binary64 value, ties to even, with gradual underflow and overflow to infinity.
\<close>

datatype pyfloat = Finite rat | PosInf | NegInf | NaN

datatype pynum = PyInt int | PyFloat pyfloat

fun bit_length :: "nat \<Rightarrow> nat" where
  "bit_length n = (if n = 0 then 0 else Suc (bit_length (n div 2)))"

declare bit_length.simps [simp del]

definition pow2 :: "int \<Rightarrow> rat" where
  "pow2 e = (if 0 \<le> e then 2 ^ nat e else 1 / 2 ^ nat (- e))"

text \<open>For \<open>a > 0\<close>, the exponent \<open>e\<close> with \<open>2 ^ e \<le> a < 2 ^ (e + 1)\<close>.\<close>

definition ilog2 :: "rat \<Rightarrow> int" where
  "ilog2 a =
     (if 1 \<le> a then int (bit_length (nat \<lfloor>a\<rfloor>)) - 1
      else - int (bit_length (nat (\<lceil>1 / a\<rceil> - 1))))"

definition round_half_even :: "rat \<Rightarrow> int" where
  "round_half_even x =
     (let f = \<lfloor>x\<rfloor>; d = x - of_int f
      in if d < 1 / 2 then f else if 1 / 2 < d then f + 1 else if even f then f else f + 1)"

definition round_double :: "rat \<Rightarrow> pyfloat" where
  "round_double r =
     (if r = 0 then Finite 0
      else
        let a = \<bar>r\<bar>;
            e = max (ilog2 a) (- 1022);
            q = pow2 (e - 52);
            m = of_int (round_half_even (a / q)) * q
        in if pow2 1024 \<le> m then (if 0 < r then PosInf else NegInf)
           else Finite (if 0 < r then m else - m))"

text \<open>\<open>a / b\<close> on two Python integers.\<close>

definition int_true_divide :: "int \<Rightarrow> int \<Rightarrow> error + pyfloat" where
  "int_true_divide a b =
     (if b = 0 then Inl ZeroDivisionError
      else case round_double (of_int a / of_int b) of
             Finite x \<Rightarrow> Inr (Finite x)
           | _ \<Rightarrow> Inl OverflowError)"

text \<open>The conversion of an integer operand in mixed arithmetic.\<close>

definition float_of_int :: "int \<Rightarrow> error + pyfloat" where
  "float_of_int a =
     (case round_double (of_int a) of
        Finite x \<Rightarrow> Inr (Finite x)
      | _ \<Rightarrow> Inl OverflowError)"

definition float_sign :: "pyfloat \<Rightarrow> int" where
  "float_sign x =
     (case x of Finite r \<Rightarrow> sgn \<lfloor>sgn r\<rfloor> | PosInf \<Rightarrow> 1 | NegInf \<Rightarrow> - 1 | NaN \<Rightarrow> 0)"

definition signed_inf :: "int \<Rightarrow> pyfloat" where
  "signed_inf s = (if s = 0 then NaN else if 0 < s then PosInf else NegInf)"

definition float_mul :: "pyfloat \<Rightarrow> pyfloat \<Rightarrow> pyfloat" where
  "float_mul x y =
     (case (x, y) of
        (NaN, _) \<Rightarrow> NaN
      | (_, NaN) \<Rightarrow> NaN
      | (Finite a, Finite b) \<Rightarrow> round_double (a * b)
      | _ \<Rightarrow> signed_inf (float_sign x * float_sign y))"

definition float_true_divide :: "pyfloat \<Rightarrow> pyfloat \<Rightarrow> error + pyfloat" where
  "float_true_divide x y =
     (case (x, y) of
        (_, Finite b) \<Rightarrow>
          (if b = 0 then Inl ZeroDivisionError
           else case x of
                  Finite a \<Rightarrow> Inr (round_double (a / b))
                | NaN \<Rightarrow> Inr NaN
                | _ \<Rightarrow> Inr (signed_inf (float_sign x * float_sign y)))
      | (NaN, _) \<Rightarrow> Inr NaN
      | (_, NaN) \<Rightarrow> Inr NaN
      | (Finite a, _) \<Rightarrow> Inr (Finite 0)
      | _ \<Rightarrow> Inr NaN)"

text \<open>\<open>x * n\<close> and \<open>x / n\<close> for a configured number \<open>x\<close> and an integer \<open>n\<close>.\<close>

definition num_mul_int :: "pynum \<Rightarrow> int \<Rightarrow> error + pynum" where
  "num_mul_int x n =
     (case x of
        PyInt i \<Rightarrow> Inr (PyInt (i * n))
      | PyFloat f \<Rightarrow>
          (case float_of_int n of
             Inl e \<Rightarrow> Inl e
           | Inr g \<Rightarrow> Inr (PyFloat (float_mul f g))))"

definition num_true_divide_int :: "pynum \<Rightarrow> int \<Rightarrow> error + pyfloat" where
  "num_true_divide_int x n =
     (case x of
        PyInt i \<Rightarrow> int_true_divide i n
      | PyFloat f \<Rightarrow>
          (case float_of_int n of
             Inl e \<Rightarrow> Inl e
           | Inr g \<Rightarrow> float_true_divide f g))"

text \<open>\<open>int(x)\<close> on a float: truncation towards zero.\<close>

definition py_int :: "pyfloat \<Rightarrow> error + int" where
  "py_int x =
     (case x of
        Finite r \<Rightarrow> Inr (if 0 \<le> r then \<lfloor>r\<rfloor> else \<lceil>r\<rceil>)
      | NaN \<Rightarrow> Inl ValueError
      | _ \<Rightarrow> Inl OverflowError)"

text \<open>\<open>x > y\<close> for a float \<open>x\<close> and a configured number \<open>y\<close>; false when either is NaN.\<close>

definition float_gt :: "pyfloat \<Rightarrow> pyfloat \<Rightarrow> bool" where
  "float_gt x y =
     (case (x, y) of
        (NaN, _) \<Rightarrow> False
      | (_, NaN) \<Rightarrow> False
      | (Finite a, Finite b) \<Rightarrow> b < a
      | (PosInf, PosInf) \<Rightarrow> False
      | (PosInf, _) \<Rightarrow> True
      | (_, NegInf) \<Rightarrow> x \<noteq> NegInf
      | _ \<Rightarrow> False)"

definition float_gt_num :: "pyfloat \<Rightarrow> pynum \<Rightarrow> bool" where
  "float_gt_num x y =
     (case y of
        PyInt i \<Rightarrow> float_gt x (Finite (of_int i))
      | PyFloat f \<Rightarrow> float_gt x f)"

section \<open>The client object\<close>

text \<open>
  The attributes of \<open>Salesforce\<close> that the methods below read or write. \<open>api_type\<close> is
  \<open>None\<close> when no strategy was configured.
\<close>

record salesforce =
  api_type :: "string option"
  quota_percent_per_run :: pynum
  quota_percent_total :: pynum
  select_fields_by_default :: bool
  rest_requests_attempted :: int

text \<open>\<open>f"{self.api_type}"\<close>.\<close>

definition format_api_type :: "string option \<Rightarrow> string" where
  "format_api_type t = (case t of None \<Rightarrow> ''None'' | Some s \<Rightarrow> s)"

definition get_blacklisted_objects :: "salesforce \<Rightarrow> error + string set" where
  "get_blacklisted_objects self =
     (if api_type self \<in> set [Some BULK_API_TYPE, Some BULK2_API_TYPE] then
        Inr (set UNSUPPORTED_BULK_API_SALESFORCE_OBJECTS
               \<union> set QUERY_RESTRICTED_SALESFORCE_OBJECTS
               \<union> set QUERY_INCOMPATIBLE_SALESFORCE_OBJECTS)
      else if api_type self = Some REST_API_TYPE then
        Inr (set QUERY_RESTRICTED_SALESFORCE_OBJECTS
               \<union> set QUERY_INCOMPATIBLE_SALESFORCE_OBJECTS)
      else
        Inl (TapSalesforceExceptionError
               (''api_type should be REST or BULK was: '' @ format_api_type (api_type self))))"

definition get_blacklisted_fields ::
    "salesforce \<Rightarrow> error + ((string \<times> string) \<times> string) list" where
  "get_blacklisted_fields self =
     (if api_type self = Some BULK_API_TYPE \<or> api_type self = Some BULK2_API_TYPE then
        Inr [((''EntityDefinition'', ''RecordTypesSupported''),
              ''this field is unsupported by the Bulk API.'')]
      else if api_type self = Some REST_API_TYPE then
        Inr []
      else
        Inl (TapSalesforceExceptionError
               (''api_type should be REST or BULK was: '' @ format_api_type (api_type self))))"

section \<open>Quota governor\<close>

text \<open>
  The pattern \<open>^api-usage=(\d+)/(\d+)$\<close> under \<open>re.search\<close>. Header values are Latin-1
  text, where \<open>\d\<close> matches the ten ASCII digits only. Each \<open>\d+\<close> is followed by a
  character that is not a digit, so the greedy run of digits is the only way to match.
  Without the multi-line flag, \<open>$\<close> matches at the end of the text and also just before
  a line feed that ends it. The result is the two groups, or \<open>None\<close>.
\<close>

definition is_digit :: "char \<Rightarrow> bool" where
  "is_digit c = (c \<in> set ''0123456789'')"

definition re_search_api_usage :: "string \<Rightarrow> (string \<times> string) option" where
  "re_search_api_usage s =
     (if take 10 s = ''api-usage='' then
        (let rest1 = drop 10 s;
             group1 = takeWhile is_digit rest1;
             rest2 = dropWhile is_digit rest1
         in if group1 = [] then None
            else case rest2 of
                   [] \<Rightarrow> None
                 | c # rest3 \<Rightarrow>
                     if c = CHR ''/'' then
                       (let group2 = takeWhile is_digit rest3;
                            rest4 = dropWhile is_digit rest3
                        in if group2 \<noteq> [] \<and> (rest4 = [] \<or> rest4 = [CHR 0x0A])
                           then Some (group1, group2) else None)
                     else None)
      else None)"

text \<open>\<open>int(...)\<close> on a run of ASCII digits.\<close>

definition int_of_digits :: "string \<Rightarrow> int" where
  "int_of_digits ds = foldl (\<lambda>acc c. 10 * acc + (of_char c - 48)) 0 ds"

text \<open>\<open>(remaining / allotted) * 100\<close>.\<close>

definition percent_used :: "int \<Rightarrow> int \<Rightarrow> error + pyfloat" where
  "percent_used remaining allotted =
     (case int_true_divide remaining allotted of
        Inl e \<Rightarrow> Inl e
      | Inr ratio \<Rightarrow> Inr (float_mul ratio (Finite 100)))"

text \<open>\<open>int((self.quota_percent_per_run * allotted) / 100)\<close>.\<close>

definition max_requests :: "pynum \<Rightarrow> int \<Rightarrow> error + int" where
  "max_requests percent allotted =
     (case num_mul_int percent allotted of
        Inl e \<Rightarrow> Inl e
      | Inr product \<Rightarrow>
          (case num_true_divide_int product 100 of
             Inl e \<Rightarrow> Inl e
           | Inr ratio \<Rightarrow> py_int ratio))"

text \<open>
  \<open>check_rest_quota_usage\<close>. The headers are a dictionary from header names to values.
  \<open>headers.get\<close> gives \<open>None\<close> for a missing header, and \<open>re.search\<close> raises
  \<open>TypeError\<close> on \<open>None\<close>. The method changes no attribute: it returns nothing or
  raises. The text of the two messages is not kept; formatting the per-run message
  evaluates \<open>(self.rest_requests_attempted / allotted) * 100\<close> first.
\<close>

definition check_rest_quota_usage :: "salesforce \<Rightarrow> (string \<times> string) list \<Rightarrow> error + unit" where
  "check_rest_quota_usage self headers =
     (case map_of headers ''Sforce-Limit-Info'' of
        None \<Rightarrow> Inl TypeError
      | Some info \<Rightarrow>
          (case re_search_api_usage info of
             None \<Rightarrow> Inr ()
           | Some (g1, g2) \<Rightarrow>
               (let remaining = int_of_digits g1;
                    allotted = int_of_digits g2
                in case percent_used remaining allotted of
                     Inl e \<Rightarrow> Inl e
                   | Inr percent_used_from_total \<Rightarrow>
                       (case max_requests (quota_percent_per_run self) allotted of
                          Inl e \<Rightarrow> Inl e
                        | Inr max_requests_for_run \<Rightarrow>
                            if float_gt_num percent_used_from_total (quota_percent_total self)
                            then Inl (TapSalesforceQuotaExceededError TotalQuota)
                            else if rest_requests_attempted self > max_requests_for_run
                            then (case percent_used (rest_requests_attempted self) allotted of
                                    Inl e \<Rightarrow> Inl e
                                  | Inr _ \<Rightarrow>
                                      Inl (TapSalesforceQuotaExceededError PerRunQuota))
                            else Inr ()))))"

section \<open>Transport\<close>

text \<open>
  What the transport reads of a \<open>requests\<close> response. The headers are looked up under
  the name as the code spells it.
\<close>

record response =
  status_code :: nat
  reason :: string
  headers :: "(string \<times> string) list"

text \<open>\<open>needle in haystack\<close> on strings.\<close>

fun contains :: "string \<Rightarrow> string \<Rightarrow> bool" where
  "contains needle [] = (needle = [])"
| "contains needle (c # cs) =
     (take (length needle) (c # cs) = needle \<or> contains needle cs)"

text \<open>
  The method \<open>Response.raise_for_status\<close> belongs to the \<open>requests\<close> library, not to
  this repository; it is modelled as the library documents it. It raises the generic HTTP
  error for the client and server error statuses, 400 to 599, and returns for every other
  status.
\<close>

definition response_raise_for_status :: "response \<Rightarrow> error + unit" where
  "response_raise_for_status resp =
     (if 400 \<le> status_code resp \<and> status_code resp < 600
      then Inl (HTTPError (status_code resp)) else Inr ())"

text \<open>
  \<open>raise_for_status\<close>. The first component tells whether \<open>LOGGER.warning\<close> was called.
\<close>

definition raise_for_status :: "response \<Rightarrow> bool \<times> (error + unit)" where
  "raise_for_status resp =
     (status_code resp \<noteq> 200,
      if status_code resp = 406 \<and> contains ''CustomNotAcceptable'' (reason resp)
      then Inl SFDCCustomNotAcceptableError
      else response_raise_for_status resp)"

text \<open>
  The body of \<open>_make_request\<close>, one attempt. \<open>sent\<close> is what \<open>self.session.get\<close> or
  \<open>self.session.post\<close> does on this attempt: it raises or it returns a response.
  The result carries the client with its updated counter.
\<close>

definition make_request_body ::
    "salesforce \<Rightarrow> string \<Rightarrow> error + response \<Rightarrow> (error + response) \<times> salesforce" where
  "make_request_body self http_method sent =
     (if http_method = ''GET'' \<or> http_method = ''POST'' then
        (case sent of
           Inl e \<Rightarrow> (Inl e, self)
         | Inr resp \<Rightarrow>
             (case snd (raise_for_status resp) of
                Inl e \<Rightarrow> (Inl e, self)
              | Inr _ \<Rightarrow>
                  if map_of (headers resp) ''Sforce-Limit-Info'' \<noteq> None then
                    (let self1 = self\<lparr>rest_requests_attempted :=
                                        rest_requests_attempted self + 1\<rparr>
                     in case check_rest_quota_usage self1 (headers resp) of
                          Inl e \<Rightarrow> (Inl e, self1)
                        | Inr _ \<Rightarrow> (Inr resp, self1))
                  else (Inr resp, self)))
      else (Inl (TapSalesforceExceptionError ''Unsupported HTTP method''), self))"

text \<open>
  The decorator \<open>backoff.on_exception\<close> with
  \<open>(requests.exceptions.ConnectionError, SFDCCustomNotAcceptableError)\<close>,
  \<open>max_tries=10\<close> and \<open>on_backoff=log_backoff_attempt\<close>: it counts the tries from 1,
  calls the body, returns its result, re-raises an exception of another class at once, and
  re-raises a listed exception when the count has reached \<open>max_tries\<close>; otherwise it
  calls the handler, which logs the count, sleeps and calls the body again.
  The library tests \<open>tries == max_tries\<close>; the count starts at 0 and grows by one, so
  below it is written \<open>max_tries \<le> tries\<close>. \<open>server\<close> gives what the session does on
  each try. The third component of the result lists the counts that
  \<open>log_backoff_attempt\<close> logged, one for each retry.
\<close>

definition max_tries :: nat where
  "max_tries = 10"

definition retried :: "error \<Rightarrow> bool" where
  "retried e = (e = ConnectionError \<or> e = SFDCCustomNotAcceptableError)"

function on_exception ::
    "nat \<Rightarrow> salesforce \<Rightarrow> string \<Rightarrow> (nat \<Rightarrow> error + response)
       \<Rightarrow> (error + response) \<times> salesforce \<times> nat list" where
  "on_exception tries self http_method server =
     (case make_request_body self http_method (server (tries + 1)) of
        (Inr resp, self1) \<Rightarrow> (Inr resp, self1, [])
      | (Inl e, self1) \<Rightarrow>
          if retried e \<and> \<not> max_tries \<le> tries + 1
          then (case on_exception (tries + 1) self1 http_method server of
                  (r, self2, logged) \<Rightarrow> (r, self2, (tries + 1) # logged))
          else (Inl e, self1, []))"
  by pat_completeness auto
termination
  by (relation "measure (\<lambda>(tries, self, http_method, server). max_tries - tries)") auto

text \<open>\<open>_make_request\<close>: the decorated method.\<close>

definition make_request ::
    "salesforce \<Rightarrow> string \<Rightarrow> (nat \<Rightarrow> error + response)
       \<Rightarrow> (error + response) \<times> salesforce \<times> nat list" where
  "make_request self http_method server = on_exception 0 self http_method server"

section \<open>Query builder\<close>









section \<open>Notions of the specification\<close>

text \<open>
  The type set of a fragment: the alternatives listed under its \<open>type\<close> key, a single
  type counting as a set of one, and no \<open>type\<close> key as the empty set. A fragment is
  nullable by its type set when the null marker is one of the alternatives.
\<close>

definition type_set :: "schema \<Rightarrow> json list" where
  "type_set frag =
     (case map_of frag ''type'' of
        None \<Rightarrow> []
      | Some (JList ts) \<Rightarrow> ts
      | Some t \<Rightarrow> [t])"

definition includes_null :: "schema \<Rightarrow> bool" where
  "includes_null frag = (JStr ''null'' \<in> set (type_set frag))"

text \<open>The type tags that get a single plain type from the mapper.\<close>

definition PLAIN_TYPES :: "string list" where
  "PLAIN_TYPES =
     STRING_TYPES @ NUMBER_TYPES @ [''boolean'', ''address'', ''int'', ''long'', ''time'', ''json'']"

text \<open>
  The client as the constructor leaves it when neither quota percentage nor the default
  selection is configured: the per-run share is 25, the total ceiling is 80, and no request
  has been counted. \<open>api\<close> is the strategy identifier it stores.
\<close>

definition new_client :: "string option \<Rightarrow> salesforce" where
  "new_client api =
     \<lparr>api_type = api,
      quota_percent_per_run = PyInt 25,
      quota_percent_total = PyInt 80,
      select_fields_by_default = False,
      rest_requests_attempted = 0\<rparr>"

section \<open>Schema mapper: the result for each class of type tags\<close>

lemmas type_defs =
  STRING_TYPES_def NUMBER_TYPES_def DATE_TYPES_def BINARY_TYPES_def LOOSE_TYPES_def

lemma nillable_plain:
  "t \<notin> set DATE_TYPES \<Longrightarrow> t \<noteq> ''location'' \<Longrightarrow>
   nillable n t [(''type'', JStr s)] md =
     Inr ([(''type'', if n = ''Id'' then JStr s else JList [JStr ''null'', JStr s])], md)"
  by (simp add: nillable_def)

lemma string_not_date:
  "t \<in> set STRING_TYPES \<Longrightarrow> t \<notin> set DATE_TYPES \<and> t \<noteq> ''location''"
  by (auto simp: type_defs)

lemma number_not_date:
  "t \<in> set NUMBER_TYPES \<Longrightarrow> t \<notin> set DATE_TYPES \<and> t \<noteq> ''location''"
  by (auto simp: type_defs)

lemma mapper_string:
  assumes "type f \<in> set STRING_TYPES"
  shows "field_to_property_schema f md =
           Inr ([(''type'', if name f = ''Id'' then JStr ''string''
                            else JList [JStr ''null'', JStr ''string''])], md)"
  using assms string_not_date [OF assms]
  by (simp add: field_to_property_schema_def nillable_plain)

lemma mapper_date:
  assumes "type f \<in> set DATE_TYPES"
  shows "field_to_property_schema f md =
           Inr ([(''anyOf'',
                  JList [JObj [(''type'', JStr ''string''), (''format'', JStr ''date-time'')],
                         JObj [(''type'', JList [JStr ''string'', JStr ''null''])]])], md)"
proof -
  have "type f \<notin> set STRING_TYPES"
    using assms by (auto simp: type_defs)
  then show ?thesis
    using assms by (simp add: field_to_property_schema_def nillable_def)
qed

lemma mapper_number:
  assumes "type f \<in> set NUMBER_TYPES"
  shows "field_to_property_schema f md =
           Inr ([(''type'', if name f = ''Id'' then JStr ''number''
                            else JList [JStr ''null'', JStr ''number''])], md)"
proof -
  have "type f \<notin> set STRING_TYPES" "type f \<notin> set DATE_TYPES" "type f \<noteq> ''boolean''"
    using assms by (auto simp: type_defs)
  then show ?thesis
    using assms number_not_date [OF assms]
    by (simp add: field_to_property_schema_def nillable_plain)
qed

lemma mapper_single:
  assumes "(type f, s) \<in> set [(''boolean'', ''boolean''), (''int'', ''integer''),
             (''long'', ''integer''), (''time'', ''string''), (''json'', ''string'')]"
  shows "field_to_property_schema f md =
           Inr ([(''type'', if name f = ''Id'' then JStr s
                            else JList [JStr ''null'', JStr s])], md)"
  using assms
  by (auto simp: field_to_property_schema_def nillable_def type_defs)

lemma mapper_address:
  assumes "type f = ''address''"
  shows "field_to_property_schema f md =
           Inr ([(''type'', if name f = ''Id'' then JStr ''object''
                            else JList [JStr ''null'', JStr ''object'']),
                 (''properties'',
                  JObj [(''street'', null_string),
                        (''state'', null_string),
                        (''postalCode'', null_string),
                        (''city'', null_string),
                        (''country'', null_string),
                        (''longitude'', null_number),
                        (''latitude'', null_number),
                        (''geocodeAccuracy'', null_string)])], md)"
  using assms
  by (simp add: field_to_property_schema_def nillable_def type_defs)

lemma mapper_location:
  assumes "type f = ''location''"
  shows "field_to_property_schema f md =
           Inr ([(''type'', JList [JStr ''number'', JStr ''object'', JStr ''null'']),
                 (''properties'',
                  JObj [(''longitude'', null_number), (''latitude'', null_number)])], md)"
  using assms
  by (simp add: field_to_property_schema_def nillable_def type_defs)

lemma mapper_loose:
  assumes "type f \<in> set LOOSE_TYPES"
  shows "field_to_property_schema f md = Inr ([], md)"
  using assms
  by (auto simp: field_to_property_schema_def type_defs)

lemma mapper_binary:
  assumes "type f \<in> set BINARY_TYPES"
  shows "field_to_property_schema f md =
           Inr ([], metadata_write
                      (metadata_write md [''properties'', name f] ''inclusion''
                         (MStr ''unsupported''))
                      [''properties'', name f] ''unsupported-description''
                      (MStr ''binary data''))"
  using assms
  by (auto simp: field_to_property_schema_def type_defs Let_def)

lemma mapper_unknown:
  assumes "type f \<notin> set STRING_TYPES" "type f \<notin> set DATE_TYPES"
    "type f \<notin> set NUMBER_TYPES" "type f \<notin> set LOOSE_TYPES" "type f \<notin> set BINARY_TYPES"
    "type f \<notin> set [''boolean'', ''int'', ''long'', ''time'', ''json'', ''address'', ''location'']"
  shows "field_to_property_schema f md =
           Inl (TapSalesforceExceptionError (''Found unsupported type: '' @ type f))"
  using assms
  by (simp add: field_to_property_schema_def)

lemma single_cases:
  assumes "type f \<in> set [''boolean'', ''int'', ''long'', ''time'', ''json'']"
  obtains s where
    "(type f, s) \<in> set [(''boolean'', ''boolean''), (''int'', ''integer''),
       (''long'', ''integer''), (''time'', ''string''), (''json'', ''string'')]"
  using assms by auto

lemma single_not_special:
  assumes "t \<in> set [''boolean'', ''int'', ''long'', ''time'', ''json'', ''address'']"
  shows "t \<notin> set DATE_TYPES \<and> t \<noteq> ''location'' \<and> t \<notin> set LOOSE_TYPES
           \<and> t \<notin> set BINARY_TYPES \<and> t \<notin> set STRING_TYPES"
  using assms by (auto simp: type_defs)

lemma includes_null_wrapped:
  "includes_null ((''type'', JList [JStr ''null'', t]) # rest)"
  by (simp add: includes_null_def type_set_def)

section \<open>Schema mapper: claims\<close>

text \<open>
  Claim C1. For every field descriptor and metadata, \<open>field_to_property_schema\<close> returns
  what section 4.3 of the specification prescribes: the fragment of the table row that
  lists the type tag, with the general nullability rule of that section applied to it, and
  the metadata unchanged except for the \<open>byte\<close> row, which marks the field unsupported
  with the reason "binary data"; a type tag that no row lists raises the unsupported-type
  error.
\<close>

theorem field_to_property_schema_table:
  "field_to_property_schema f md = spec_mapField f md"
  unfolding field_to_property_schema_def spec_mapField_def spec_lookup_def spec_table_def
    nillable_def spec_nullability_def spec_patch_def type_defs
    null_string_def null_number_def spec_nullable_string_def spec_nullable_number_def
  by (auto simp: Let_def)

text \<open>
  Claim C2, as amended. Whenever \<open>field_to_property_schema\<close> accepts a field: if the name
  is not \<open>Id\<close> and the type is neither a date/time type, nor \<open>location\<close>, nor a loose
  type (\<open>anyType\<close>, \<open>calculated\<close>), nor \<open>byte\<close>, then the type set of the fragment
  includes the null marker; a date/time fragment is exactly the two-alternative \<open>anyOf\<close>
  whose second alternative includes null, with no \<open>type\<close> key wrapped around it; a
  \<open>location\<close> fragment has exactly the type \<open>[number, object, null]\<close>.
\<close>

theorem nullability_invariant:
  assumes ok: "field_to_property_schema f md = Inr (frag, md')"
  shows "(name f \<noteq> ''Id'' \<and> type f \<notin> set DATE_TYPES \<and> type f \<noteq> ''location''
            \<and> type f \<notin> set LOOSE_TYPES \<and> type f \<notin> set BINARY_TYPES
          \<longrightarrow> includes_null frag)
       \<and> (type f \<in> set DATE_TYPES \<longrightarrow>
            frag = [(''anyOf'',
                     JList [JObj [(''type'', JStr ''string''), (''format'', JStr ''date-time'')],
                            JObj [(''type'', JList [JStr ''string'', JStr ''null''])]])])
       \<and> (type f = ''location'' \<longrightarrow>
            map_of frag ''type'' = Some (JList [JStr ''number'', JStr ''object'', JStr ''null'']))"
proof (intro conjI impI)
  assume plain: "name f \<noteq> ''Id'' \<and> type f \<notin> set DATE_TYPES \<and> type f \<noteq> ''location''
      \<and> type f \<notin> set LOOSE_TYPES \<and> type f \<notin> set BINARY_TYPES"
  consider (string) "type f \<in> set STRING_TYPES"
    | (number) "type f \<in> set NUMBER_TYPES"
    | (single) "type f \<in> set [''boolean'', ''int'', ''long'', ''time'', ''json'']"
    | (address) "type f = ''address''"
    | (unknown) "type f \<notin> set STRING_TYPES" "type f \<notin> set NUMBER_TYPES"
        "type f \<notin> set [''boolean'', ''int'', ''long'', ''time'', ''json'', ''address'', ''location'']"
    using plain by auto
  then show "includes_null frag"
  proof cases
    case string
    from mapper_string [OF string, of md] ok plain show ?thesis
      by (auto simp: includes_null_wrapped)
  next
    case number
    from mapper_number [OF number, of md] ok plain show ?thesis
      by (auto simp: includes_null_wrapped)
  next
    case single
    then obtain s where "(type f, s) \<in> set [(''boolean'', ''boolean''), (''int'', ''integer''),
       (''long'', ''integer''), (''time'', ''string''), (''json'', ''string'')]"
      by (rule single_cases)
    from mapper_single [OF this, of md] ok plain show ?thesis
      by (auto simp: includes_null_wrapped)
  next
    case address
    from mapper_address [OF address, of md] ok plain show ?thesis
      by (auto simp: includes_null_wrapped)
  next
    case unknown
    with plain have "field_to_property_schema f md =
        Inl (TapSalesforceExceptionError (''Found unsupported type: '' @ type f))"
      by (intro mapper_unknown) auto
    with ok show ?thesis by simp
  qed
next
  assume "type f \<in> set DATE_TYPES"
  from mapper_date [OF this, of md] ok
  show "frag = [(''anyOf'',
                 JList [JObj [(''type'', JStr ''string''), (''format'', JStr ''date-time'')],
                        JObj [(''type'', JList [JStr ''string'', JStr ''null''])]])]"
    by simp
next
  assume "type f = ''location''"
  from mapper_location [OF this, of md] ok
  show "map_of frag ''type'' = Some (JList [JStr ''number'', JStr ''object'', JStr ''null''])"
    by auto
qed

text \<open>
  The invariant at three accepted fields: a boolean field \<open>IsDeleted\<close>, a date field
  \<open>CreatedDate\<close> and a location field \<open>Geo\<close>.
\<close>

theorem nullability_invariant_witness:
  "field_to_property_schema \<lparr>name = ''IsDeleted'', type = ''boolean''\<rparr> []
     = Inr ([(''type'', JList [JStr ''null'', JStr ''boolean''])], [])
   \<and> includes_null [(''type'', JList [JStr ''null'', JStr ''boolean''])]
   \<and> field_to_property_schema \<lparr>name = ''CreatedDate'', type = ''datetime''\<rparr> []
     = Inr ([(''anyOf'',
              JList [JObj [(''type'', JStr ''string''), (''format'', JStr ''date-time'')],
                     JObj [(''type'', JList [JStr ''string'', JStr ''null''])]])], [])
   \<and> field_to_property_schema \<lparr>name = ''Geo'', type = ''location''\<rparr> []
     = Inr ([(''type'', JList [JStr ''number'', JStr ''object'', JStr ''null'']),
             (''properties'',
              JObj [(''longitude'', null_number), (''latitude'', null_number)])], [])
   \<and> map_of [(''type'', JList [JStr ''number'', JStr ''object'', JStr ''null'']),
             (''properties'',
              JObj [(''longitude'', null_number), (''latitude'', null_number)])] ''type''
       = Some (JList [JStr ''number'', JStr ''object'', JStr ''null''])"
proof -
  have a: "field_to_property_schema \<lparr>name = ''IsDeleted'', type = ''boolean''\<rparr> []
             = Inr ([(''type'', JList [JStr ''null'', JStr ''boolean''])], [])"
    by (simp add: field_to_property_schema_def nillable_def type_defs)
  have b: "field_to_property_schema \<lparr>name = ''CreatedDate'', type = ''datetime''\<rparr> []
             = Inr ([(''anyOf'',
              JList [JObj [(''type'', JStr ''string''), (''format'', JStr ''date-time'')],
                     JObj [(''type'', JList [JStr ''string'', JStr ''null''])]])], [])"
    by (simp add: field_to_property_schema_def nillable_def type_defs)
  have c: "field_to_property_schema \<lparr>name = ''Geo'', type = ''location''\<rparr> []
             = Inr ([(''type'', JList [JStr ''number'', JStr ''object'', JStr ''null'']),
             (''properties'',
              JObj [(''longitude'', null_number), (''latitude'', null_number)])], [])"
    by (simp add: field_to_property_schema_def nillable_def type_defs)
  from nullability_invariant [OF a] nullability_invariant [OF b] nullability_invariant [OF c]
    a b c
  show ?thesis
    by (simp add: type_defs)
qed

text \<open>
  Claim C2 as stated fails: the field \<open>Foo\<close> of type \<open>anyType\<close> is accepted, its name is
  not \<open>Id\<close>, its type is neither a date/time type nor \<open>location\<close>, and the fragment is
  empty, so that its type set holds no null marker.
\<close>

theorem loose_fragment_has_no_null:
  "field_to_property_schema \<lparr>name = ''Foo'', type = ''anyType''\<rparr> [] = Inr ([], [])
   \<and> ''Foo'' \<noteq> ''Id'' \<and> ''anyType'' \<notin> set DATE_TYPES \<and> ''anyType'' \<noteq> ''location''
   \<and> \<not> includes_null []"
  by (simp add: field_to_property_schema_def type_defs includes_null_def type_set_def)

text \<open>
  Claim C10. For a field whose type tag gets a single plain type (the string types, the
  number types, \<open>boolean\<close>, \<open>address\<close>, \<open>int\<close>, \<open>long\<close>, \<open>time\<close>, \<open>json\<close>), the mapper
  returns that plain type \<open>t\<close> unwrapped exactly when the name is the string \<open>Id\<close>, and
  the union \<open>[null, t]\<close> for every other name; for the string types \<open>t\<close> is \<open>string\<close>.
\<close>

theorem primary_key_exemption:
  assumes "type f \<in> set PLAIN_TYPES"
  shows "\<exists>t frag. field_to_property_schema f md = Inr (frag, md)
           \<and> map_of frag ''type''
               = Some (if name f = ''Id'' then JStr t else JList [JStr ''null'', JStr t])
           \<and> (type f \<in> set STRING_TYPES \<longrightarrow> t = ''string'')"
proof -
  consider (string) "type f \<in> set STRING_TYPES"
    | (number) "type f \<in> set NUMBER_TYPES"
    | (single) "type f \<in> set [''boolean'', ''int'', ''long'', ''time'', ''json'']"
    | (address) "type f = ''address''"
    using assms by (auto simp: PLAIN_TYPES_def)
  then show ?thesis
  proof cases
    case string
    from mapper_string [OF string, of md] show ?thesis by auto
  next
    case number
    then have "type f \<notin> set STRING_TYPES" by (auto simp: type_defs)
    with mapper_number [OF number, of md] show ?thesis by auto
  next
    case single
    then obtain s where "(type f, s) \<in> set [(''boolean'', ''boolean''), (''int'', ''integer''),
       (''long'', ''integer''), (''time'', ''string''), (''json'', ''string'')]"
      by (rule single_cases)
    from mapper_single [OF this, of md] single_not_special [of "type f"] single
    show ?thesis by auto
  next
    case address
    with single_not_special [of "type f"] have "type f \<notin> set STRING_TYPES" by simp
    with mapper_address [OF address, of md] show ?thesis by auto
  qed
qed

text \<open>
  The exemption at string-typed fields named \<open>Id\<close>, \<open>id\<close> and \<open>ID\<close>: only the first keeps
  the plain type.
\<close>

theorem primary_key_exemption_witness:
  "''string'' \<in> set PLAIN_TYPES
   \<and> (\<exists>frag. field_to_property_schema \<lparr>name = ''Id'', type = ''string''\<rparr> [] = Inr (frag, [])
         \<and> map_of frag ''type'' = Some (JStr ''string''))
   \<and> (\<exists>frag. field_to_property_schema \<lparr>name = ''id'', type = ''string''\<rparr> [] = Inr (frag, [])
         \<and> map_of frag ''type'' = Some (JList [JStr ''null'', JStr ''string'']))
   \<and> (\<exists>frag. field_to_property_schema \<lparr>name = ''ID'', type = ''string''\<rparr> [] = Inr (frag, [])
         \<and> map_of frag ''type'' = Some (JList [JStr ''null'', JStr ''string'']))"
proof -
  have m: "''string'' \<in> set PLAIN_TYPES" and s: "''string'' \<in> set STRING_TYPES"
    by (simp_all add: PLAIN_TYPES_def type_defs)
  from primary_key_exemption [of "\<lparr>name = ''Id'', type = ''string''\<rparr>" "[]"]
    primary_key_exemption [of "\<lparr>name = ''id'', type = ''string''\<rparr>" "[]"]
    primary_key_exemption [of "\<lparr>name = ''ID'', type = ''string''\<rparr>" "[]"] m s
  show ?thesis
    by auto
qed

section \<open>Quota governor: the header pattern\<close>

lemma re_search_api_usage_form:
  assumes "re_search_api_usage s = Some (g1, g2)"
  shows "g1 \<noteq> [] \<and> g2 \<noteq> [] \<and> list_all is_digit g1 \<and> list_all is_digit g2
         \<and> (s = ''api-usage='' @ g1 @ ''/'' @ g2
            \<or> s = ''api-usage='' @ g1 @ ''/'' @ g2 @ [CHR 0x0A])"
proof -
  define r1 where "r1 = drop 10 s"
  have pre: "take 10 s = ''api-usage=''"
    using assms by (auto simp: re_search_api_usage_def split: if_splits)
  then have s: "s = ''api-usage='' @ r1"
    unfolding r1_def by (metis append_take_drop_id)
  from assms pre obtain r3 where
    g1: "g1 = takeWhile is_digit r1" "g1 \<noteq> []" and
    r2: "dropWhile is_digit r1 = CHR ''/'' # r3" and
    g2: "g2 = takeWhile is_digit r3" "g2 \<noteq> []" and
    r4: "dropWhile is_digit r3 = [] \<or> dropWhile is_digit r3 = [CHR 0x0A]"
    unfolding r1_def [symmetric] re_search_api_usage_def Let_def
    by (auto simp: r1_def [symmetric] split: if_splits list.splits)
  have "r1 = g1 @ CHR ''/'' # r3"
    using g1(1) r2 by (metis takeWhile_dropWhile_id)
  moreover have "r3 = g2 \<or> r3 = g2 @ [CHR 0x0A]"
    using g2(1) r4 by (metis append_Nil2 takeWhile_dropWhile_id)
  moreover have "list_all is_digit g1" "list_all is_digit g2"
    unfolding g1(1) g2(1) list_all_iff by (auto dest: set_takeWhileD)
  ultimately show ?thesis
    using s g1(2) g2(2) by auto
qed

lemma re_search_api_usage_match:
  assumes "g1 \<noteq> []" "g2 \<noteq> []" "list_all is_digit g1" "list_all is_digit g2"
    and "rest = [] \<or> rest = [CHR 0x0A]"
  shows "re_search_api_usage (''api-usage='' @ g1 @ ''/'' @ g2 @ rest) = Some (g1, g2)"
proof -
  have nd: "\<not> is_digit CHR ''/''" "\<not> is_digit (CHR 0x0A)"
    by (simp_all add: is_digit_def)
  have t1: "takeWhile is_digit (g1 @ CHR ''/'' # g2 @ rest) = g1"
    using assms(3) nd by (simp add: list_all_iff)
  have d1: "dropWhile is_digit (g1 @ CHR ''/'' # g2 @ rest) = CHR ''/'' # g2 @ rest"
    using assms(3) nd by (simp add: list_all_iff)
  have t2: "takeWhile is_digit (g2 @ rest) = g2"
    using assms(4,5) nd by (auto simp: list_all_iff)
  have d2: "dropWhile is_digit (g2 @ rest) = rest"
    using assms(4,5) nd by (auto simp: list_all_iff)
  show ?thesis
    using assms(1,2,5)
    by (simp add: re_search_api_usage_def t1 d1 t2 d2 del: dropWhile_eq_Nil_conv)
qed

section \<open>Quota governor: arithmetic on the values of the claims\<close>

lemma bit_length_numeral:
  "bit_length (numeral k) = Suc (bit_length (numeral k div 2))"
  by (subst bit_length.simps) simp

lemma bit_length_0: "bit_length 0 = 0"
  by (subst bit_length.simps) simp

lemma bit_length_1: "bit_length (Suc 0) = 1"
  by (subst bit_length.simps) (simp add: bit_length_0)

lemmas round_defs =
  round_double_def ilog2_def pow2_def round_half_even_def Let_def
  bit_length_numeral bit_length_0 bit_length_1

lemma round_double_100: "round_double 100 = Finite 100"
  by (simp add: round_defs)

lemma round_double_250: "round_double 250 = Finite 250"
  by (simp add: round_defs)

lemma round_double_1000: "round_double 1000 = Finite 1000"
  by (simp add: round_defs)

lemma round_double_25000: "round_double 25000 = Finite 25000"
  by (simp add: round_defs)

lemma max_requests_int_25: "max_requests (PyInt 25) 1000 = Inr 250"
  by (simp add: max_requests_def num_mul_int_def num_true_divide_int_def int_true_divide_def
      py_int_def round_double_250)

lemma max_requests_float_25: "max_requests (PyFloat (Finite 25)) 1000 = Inr 250"
  by (simp add: max_requests_def num_mul_int_def num_true_divide_int_def float_of_int_def
      float_mul_def float_true_divide_def py_int_def
      round_double_100 round_double_250 round_double_1000 round_double_25000)

lemma percent_used_100: "percent_used 100 1000 = Inr (Finite 10)"
  by code_simp

lemma percent_used_150: "percent_used 150 1000 = Inr (Finite 15)"
  by code_simp

lemma percent_used_750: "percent_used 750 1000 = Inr (Finite 75)"
  by code_simp

lemma percent_used_850: "percent_used 850 1000 = Inr (Finite 85)"
  by code_simp

lemma percent_used_251:
  "percent_used 251 1000 = Inr (Finite (3532510957718733 / 140737488355328))"
  by code_simp

lemma check_rest_quota_usage_parsed:
  assumes "map_of hs ''Sforce-Limit-Info'' = Some info"
    and "re_search_api_usage info = Some (g1, g2)"
    and "percent_used (int_of_digits g1) (int_of_digits g2) = Inr p"
    and "max_requests (quota_percent_per_run self) (int_of_digits g2) = Inr m"
  shows "check_rest_quota_usage self hs =
           (if float_gt_num p (quota_percent_total self)
            then Inl (TapSalesforceQuotaExceededError TotalQuota)
            else if rest_requests_attempted self > m
            then (case percent_used (rest_requests_attempted self) (int_of_digits g2) of
                    Inl e \<Rightarrow> Inl e
                  | Inr _ \<Rightarrow> Inl (TapSalesforceQuotaExceededError PerRunQuota))
            else Inr ())"
  using assms by (simp add: check_rest_quota_usage_def)

lemma raise_for_status_200:
  "status_code resp = 200 \<Longrightarrow> raise_for_status resp = (False, Inr ())"
  by (simp add: raise_for_status_def response_raise_for_status_def)

lemma percent_used_error:
  "percent_used a b = Inl e \<Longrightarrow> e = ZeroDivisionError \<or> e = OverflowError"
  by (auto simp: percent_used_def int_true_divide_def split: if_splits pyfloat.splits)

section \<open>Quota governor: claims\<close>

text \<open>
  Claim C3. Let the per-run share be 25 (the integer default or the float 25.0) and let a
  response with status 200 carry a quota header whose allotted value is 1000 and whose
  usage is not above the total ceiling. Then the bound computed from that header is
  \<open>int(25 * 1000 / 100) = 250\<close>; \<open>_make_request\<close> adds one to the counter before the
  check, so that the request being answered is counted; when the counter reaches at most
  250 the response is returned, and when it reaches 251 the per-run quota error is raised,
  the counter keeping the value 251.
\<close>

theorem per_run_quota:
  assumes share: "quota_percent_per_run self = PyInt 25
                    \<or> quota_percent_per_run self = PyFloat (Finite 25)"
    and status: "status_code resp = 200"
    and header: "map_of (headers resp) ''Sforce-Limit-Info'' = Some info"
    and parsed: "re_search_api_usage info = Some (used, allotted)"
    and allotted: "int_of_digits allotted = 1000"
    and total: "percent_used (int_of_digits used) 1000 = Inr p"
    and below: "\<not> float_gt_num p (quota_percent_total self)"
    and counter: "rest_requests_attempted self \<le> 250"
  shows "max_requests (quota_percent_per_run self) (int_of_digits allotted) = Inr 250
       \<and> make_request_body self ''GET'' (Inr resp) =
           (if rest_requests_attempted self + 1 \<le> 250 then Inr resp
            else Inl (TapSalesforceQuotaExceededError PerRunQuota),
            self\<lparr>rest_requests_attempted := rest_requests_attempted self + 1\<rparr>)"
proof -
  let ?self1 = "self\<lparr>rest_requests_attempted := rest_requests_attempted self + 1\<rparr>"
  have bound: "max_requests (quota_percent_per_run self) (int_of_digits allotted) = Inr 250"
    using share allotted max_requests_int_25 max_requests_float_25 by auto
  have check: "check_rest_quota_usage ?self1 (headers resp) =
      (if rest_requests_attempted self + 1 > 250
       then (case percent_used (rest_requests_attempted self + 1) 1000 of
               Inl e \<Rightarrow> Inl e
             | Inr _ \<Rightarrow> Inl (TapSalesforceQuotaExceededError PerRunQuota))
       else Inr ())"
    using check_rest_quota_usage_parsed [of "headers resp" info used allotted p ?self1 250]
      header parsed total below bound allotted
    by simp
  have body: "make_request_body self ''GET'' (Inr resp) =
      (case check_rest_quota_usage ?self1 (headers resp) of
         Inl e \<Rightarrow> (Inl e, ?self1)
       | Inr _ \<Rightarrow> (Inr resp, ?self1))"
    using header by (simp add: make_request_body_def raise_for_status_200 [OF status] Let_def)
  show ?thesis
  proof (cases "rest_requests_attempted self + 1 \<le> 250")
    case True
    with bound body check show ?thesis by simp
  next
    case False
    with counter have "rest_requests_attempted self + 1 = 251" by simp
    with bound body check percent_used_251 show ?thesis by simp
  qed
qed

text \<open>
  The claim at a client with the default settings: the response to request 250 is
  returned, request 251 raises.
\<close>

theorem per_run_quota_witness:
  "make_request_body ((new_client (Some ''REST''))\<lparr>rest_requests_attempted := 249\<rparr>) ''GET''
      (Inr \<lparr>status_code = 200, reason = ''OK'',
            headers = [(''Sforce-Limit-Info'', ''api-usage=100/1000'')]\<rparr>)
     = (Inr \<lparr>status_code = 200, reason = ''OK'',
              headers = [(''Sforce-Limit-Info'', ''api-usage=100/1000'')]\<rparr>,
        (new_client (Some ''REST''))\<lparr>rest_requests_attempted := 250\<rparr>)
   \<and> make_request_body ((new_client (Some ''REST''))\<lparr>rest_requests_attempted := 250\<rparr>) ''GET''
      (Inr \<lparr>status_code = 200, reason = ''OK'',
            headers = [(''Sforce-Limit-Info'', ''api-usage=100/1000'')]\<rparr>)
     = (Inl (TapSalesforceQuotaExceededError PerRunQuota),
        (new_client (Some ''REST''))\<lparr>rest_requests_attempted := 251\<rparr>)"
proof -
  let ?resp = "\<lparr>status_code = 200, reason = ''OK'',
                 headers = [(''Sforce-Limit-Info'', ''api-usage=100/1000'')]\<rparr>"
  have parsed: "re_search_api_usage ''api-usage=100/1000'' = Some (''100'', ''1000'')"
    by (simp add: re_search_api_usage_def is_digit_def)
  have digits: "int_of_digits ''1000'' = 1000" "int_of_digits ''100'' = 100"
    by (simp_all add: int_of_digits_def)
  have below: "\<not> float_gt_num (Finite 10) (PyInt 80)"
    by (simp add: float_gt_num_def float_gt_def)
  have a: "quota_percent_per_run ((new_client (Some ''REST''))\<lparr>rest_requests_attempted := n\<rparr>)
             = PyInt 25
           \<or> quota_percent_per_run ((new_client (Some ''REST''))\<lparr>rest_requests_attempted := n\<rparr>)
             = PyFloat (Finite 25)" for n
    by (simp add: new_client_def)
  have t: "quota_percent_total ((new_client (Some ''REST''))\<lparr>rest_requests_attempted := n\<rparr>)
             = PyInt 80" for n
    by (simp add: new_client_def)
  have p: "percent_used (int_of_digits ''100'') 1000 = Inr (Finite 10)"
    using percent_used_100 digits by simp
  from per_run_quota
         [of "(new_client (Some ''REST''))\<lparr>rest_requests_attempted := 249\<rparr>" ?resp
             "''api-usage=100/1000''" "''100''" "''1000''" "Finite 10", OF a]
       per_run_quota
         [of "(new_client (Some ''REST''))\<lparr>rest_requests_attempted := 250\<rparr>" ?resp
             "''api-usage=100/1000''" "''100''" "''1000''" "Finite 10", OF a]
       parsed digits below t p
  show ?thesis
    by simp
qed

text \<open>
  Claim C4, as amended. When the header parses, \<open>used / allotted * 100\<close> has a value
  \<open>p\<close> (the allotted count is not zero) and the per-run bound can be computed,
  \<open>check_rest_quota_usage\<close> raises the total-quota error exactly when \<open>p\<close> is above
  \<open>quota_percent_total\<close>. With an allotted count of 1000 the percentage is 15 for 150
  used requests, 75 for 750 and 85 for 850; of these only 85 is above the default ceiling
  of 80.
\<close>

theorem total_quota:
  assumes "map_of hs ''Sforce-Limit-Info'' = Some info"
    and "re_search_api_usage info = Some (used, allotted)"
    and "percent_used (int_of_digits used) (int_of_digits allotted) = Inr p"
    and "max_requests (quota_percent_per_run self) (int_of_digits allotted) = Inr m"
  shows "(check_rest_quota_usage self hs = Inl (TapSalesforceQuotaExceededError TotalQuota))
           = float_gt_num p (quota_percent_total self)
       \<and> percent_used 150 1000 = Inr (Finite 15)
       \<and> percent_used 750 1000 = Inr (Finite 75)
       \<and> percent_used 850 1000 = Inr (Finite 85)
       \<and> \<not> float_gt_num (Finite 15) (PyInt 80)
       \<and> \<not> float_gt_num (Finite 75) (PyInt 80)
       \<and> float_gt_num (Finite 85) (PyInt 80)"
proof -
  have "(check_rest_quota_usage self hs = Inl (TapSalesforceQuotaExceededError TotalQuota))
           = float_gt_num p (quota_percent_total self)"
    unfolding check_rest_quota_usage_parsed [OF assms]
    by (auto split: sum.splits dest: percent_used_error)
  then show ?thesis
    using percent_used_150 percent_used_750 percent_used_850
    by (simp add: float_gt_num_def float_gt_def)
qed

text \<open>
  The claim at a client with the default settings and no request counted: 850 of 1000
  raises the total-quota error, 750 of 1000 and 150 of 1000 return.
\<close>

theorem total_quota_witness:
  "check_rest_quota_usage (new_client (Some ''REST''))
     [(''Sforce-Limit-Info'', ''api-usage=850/1000'')]
     = Inl (TapSalesforceQuotaExceededError TotalQuota)
   \<and> check_rest_quota_usage (new_client (Some ''REST''))
     [(''Sforce-Limit-Info'', ''api-usage=750/1000'')]
     \<noteq> Inl (TapSalesforceQuotaExceededError TotalQuota)
   \<and> check_rest_quota_usage (new_client (Some ''REST''))
     [(''Sforce-Limit-Info'', ''api-usage=150/1000'')]
     \<noteq> Inl (TapSalesforceQuotaExceededError TotalQuota)"
proof -
  have parsed:
    "re_search_api_usage ''api-usage=850/1000'' = Some (''850'', ''1000'')"
    "re_search_api_usage ''api-usage=750/1000'' = Some (''750'', ''1000'')"
    "re_search_api_usage ''api-usage=150/1000'' = Some (''150'', ''1000'')"
    by (simp_all add: re_search_api_usage_def is_digit_def)
  have digits: "int_of_digits ''1000'' = 1000" "int_of_digits ''850'' = 850"
    "int_of_digits ''750'' = 750" "int_of_digits ''150'' = 150"
    by (simp_all add: int_of_digits_def)
  have m: "max_requests (quota_percent_per_run (new_client (Some ''REST'')))
             (int_of_digits ''1000'') = Inr 250"
    using max_requests_int_25 digits by (simp add: new_client_def)
  have t: "quota_percent_total (new_client (Some ''REST'')) = PyInt 80"
    by (simp add: new_client_def)
  have p: "percent_used (int_of_digits ''850'') (int_of_digits ''1000'') = Inr (Finite 85)"
    "percent_used (int_of_digits ''750'') (int_of_digits ''1000'') = Inr (Finite 75)"
    "percent_used (int_of_digits ''150'') (int_of_digits ''1000'') = Inr (Finite 15)"
    using percent_used_150 percent_used_750 percent_used_850 digits by simp_all
  from total_quota [of "[(''Sforce-Limit-Info'', ''api-usage=850/1000'')]"
                       "''api-usage=850/1000''" "''850''" "''1000''" "Finite 85"
                       "new_client (Some ''REST'')" 250, OF _ parsed(1) p(1) m]
       total_quota [of "[(''Sforce-Limit-Info'', ''api-usage=750/1000'')]"
                       "''api-usage=750/1000''" "''750''" "''1000''" "Finite 75"
                       "new_client (Some ''REST'')" 250, OF _ parsed(2) p(2) m]
       total_quota [of "[(''Sforce-Limit-Info'', ''api-usage=150/1000'')]"
                       "''api-usage=150/1000''" "''150''" "''1000''" "Finite 15"
                       "new_client (Some ''REST'')" 250, OF _ parsed(3) p(3) m]
       t
  show ?thesis
    by simp
qed

text \<open>
  Claim C4 as stated fails: with 150 of 1000 requests used, the default ceiling of 80 and
  one request counted, \<open>check_rest_quota_usage\<close> returns without raising. The
  percentage is 15, not 85.
\<close>

theorem usage_150_of_1000_returns:
  "check_rest_quota_usage ((new_client (Some ''REST''))\<lparr>rest_requests_attempted := 1\<rparr>)
     [(''Sforce-Limit-Info'', ''api-usage=150/1000'')] = Inr ()"
proof -
  have parsed: "re_search_api_usage ''api-usage=150/1000'' = Some (''150'', ''1000'')"
    by (simp add: re_search_api_usage_def is_digit_def)
  have digits: "int_of_digits ''1000'' = 1000" "int_of_digits ''150'' = 150"
    by (simp_all add: int_of_digits_def)
  have m: "max_requests
             (quota_percent_per_run ((new_client (Some ''REST''))\<lparr>rest_requests_attempted := 1\<rparr>))
             (int_of_digits ''1000'') = Inr 250"
    using max_requests_int_25 digits by (simp add: new_client_def)
  have p: "percent_used (int_of_digits ''150'') (int_of_digits ''1000'') = Inr (Finite 15)"
    using percent_used_150 digits by simp
  show ?thesis
    unfolding check_rest_quota_usage_parsed
      [of "[(''Sforce-Limit-Info'', ''api-usage=150/1000'')]", OF _ parsed p m, simplified]
    by (simp add: new_client_def float_gt_num_def float_gt_def)
qed

text \<open>
  Claim C7, as amended. When the quota header is present and its value is neither of the
  form \<open>api-usage=<digits>/<digits>\<close> nor that form followed by one final line feed,
  \<open>check_rest_quota_usage\<close> returns normally, whatever the client's settings and
  counter. A response without the quota header never reaches the check: \<open>_make_request\<close>
  returns it and leaves the counter as it was.
\<close>

theorem malformed_header_is_noop:
  "(map_of hs ''Sforce-Limit-Info'' = Some info
      \<and> (\<forall>g1 g2. g1 \<noteq> [] \<and> g2 \<noteq> [] \<and> list_all is_digit g1 \<and> list_all is_digit g2
            \<longrightarrow> info \<noteq> ''api-usage='' @ g1 @ ''/'' @ g2
              \<and> info \<noteq> ''api-usage='' @ g1 @ ''/'' @ g2 @ [CHR 0x0A])
      \<longrightarrow> check_rest_quota_usage self hs = Inr ())
   \<and> (map_of (headers resp) ''Sforce-Limit-Info'' = None
        \<and> snd (raise_for_status resp) = Inr ()
      \<longrightarrow> make_request_body self ''GET'' (Inr resp) = (Inr resp, self))"
proof (intro conjI impI)
  assume a: "map_of hs ''Sforce-Limit-Info'' = Some info
      \<and> (\<forall>g1 g2. g1 \<noteq> [] \<and> g2 \<noteq> [] \<and> list_all is_digit g1 \<and> list_all is_digit g2
            \<longrightarrow> info \<noteq> ''api-usage='' @ g1 @ ''/'' @ g2
              \<and> info \<noteq> ''api-usage='' @ g1 @ ''/'' @ g2 @ [CHR 0x0A])"
  have "re_search_api_usage info = None"
  proof (cases "re_search_api_usage info")
    case None
    then show ?thesis .
  next
    case (Some g)
    obtain g1 g2 where "g = (g1, g2)" by (cases g)
    with Some re_search_api_usage_form [of info g1 g2] a show ?thesis
      by blast
  qed
  with a show "check_rest_quota_usage self hs = Inr ()"
    by (simp add: check_rest_quota_usage_def)
next
  assume "map_of (headers resp) ''Sforce-Limit-Info'' = None
        \<and> snd (raise_for_status resp) = Inr ()"
  then show "make_request_body self ''GET'' (Inr resp) = (Inr resp, self)"
    by (simp add: make_request_body_def)
qed

text \<open>
  The claim at the header value \<open>api-usage=abc\<close> and at a response with status 200 and no
  headers.
\<close>

theorem malformed_header_is_noop_witness:
  "check_rest_quota_usage (new_client (Some ''REST'')) [(''Sforce-Limit-Info'', ''api-usage=abc'')]
     = Inr ()
   \<and> make_request_body (new_client (Some ''REST'')) ''GET''
       (Inr \<lparr>status_code = 200, reason = ''OK'', headers = []\<rparr>)
     = (Inr \<lparr>status_code = 200, reason = ''OK'', headers = []\<rparr>, new_client (Some ''REST''))"
proof -
  have form: "\<forall>g1 g2. g1 \<noteq> [] \<and> g2 \<noteq> [] \<and> list_all is_digit g1 \<and> list_all is_digit g2
            \<longrightarrow> ''api-usage=abc'' \<noteq> ''api-usage='' @ g1 @ ''/'' @ g2
              \<and> ''api-usage=abc'' \<noteq> ''api-usage='' @ g1 @ ''/'' @ g2 @ [CHR 0x0A]"
  proof (intro allI impI)
    fix g1 g2 :: string
    assume "g1 \<noteq> [] \<and> g2 \<noteq> [] \<and> list_all is_digit g1 \<and> list_all is_digit g2"
    then obtain c cs where "g1 = c # cs" "is_digit c"
      by (cases g1) auto
    then show "''api-usage=abc'' \<noteq> ''api-usage='' @ g1 @ ''/'' @ g2
              \<and> ''api-usage=abc'' \<noteq> ''api-usage='' @ g1 @ ''/'' @ g2 @ [CHR 0x0A]"
      by (auto simp: is_digit_def)
  qed
  have ok: "snd (raise_for_status \<lparr>status_code = 200, reason = ''OK'', headers = []\<rparr>) = Inr ()"
    by (simp add: raise_for_status_200)
  from malformed_header_is_noop
         [of "[(''Sforce-Limit-Info'', ''api-usage=abc'')]" "''api-usage=abc''"
             "new_client (Some ''REST'')"
             "\<lparr>status_code = 200, reason = ''OK'', headers = []\<rparr>"]
       form ok
  show ?thesis
    by simp
qed

text \<open>
  Claim C7 as stated fails: on headers without the quota header
  \<open>check_rest_quota_usage\<close> raises \<open>TypeError\<close>, because \<open>re.search\<close> is given \<open>None\<close>;
  and a header value that ends with a line feed after \<open>api-usage=900/1000\<close> is matched and
  checked.
\<close>

theorem absent_header_raises:
  "check_rest_quota_usage (new_client (Some ''REST'')) [] = Inl TypeError
   \<and> re_search_api_usage (''api-usage=900/1000'' @ [CHR 0x0A]) = Some (''900'', ''1000'')"
  by (simp add: check_rest_quota_usage_def re_search_api_usage_def is_digit_def)

section \<open>Blacklist policy: claims\<close>

lemmas table_defs =
  UNSUPPORTED_BULK_API_SALESFORCE_OBJECTS_def
  QUERY_RESTRICTED_SALESFORCE_OBJECTS_def
  QUERY_INCOMPATIBLE_SALESFORCE_OBJECTS_def

lemmas api_defs = BULK_API_TYPE_def BULK2_API_TYPE_def REST_API_TYPE_def

lemma asset_token_event_bulk_only:
  "''AssetTokenEvent'' \<in> set UNSUPPORTED_BULK_API_SALESFORCE_OBJECTS
   \<and> ''AssetTokenEvent'' \<notin> set QUERY_RESTRICTED_SALESFORCE_OBJECTS
   \<and> ''AssetTokenEvent'' \<notin> set QUERY_INCOMPATIBLE_SALESFORCE_OBJECTS"
  by (simp add: table_defs)

text \<open>
  Claim C8, as amended. The bulk-unsupported and the query-restricted tables share no
  name, nor do the query-restricted and the query-incompatible tables; the bulk-unsupported
  and the query-incompatible tables share exactly \<open>AttachedContentNote\<close> and
  \<open>QuoteTemplateRichTextData\<close>.
\<close>

theorem blacklist_tables_overlap:
  "set UNSUPPORTED_BULK_API_SALESFORCE_OBJECTS \<inter> set QUERY_RESTRICTED_SALESFORCE_OBJECTS = {}
   \<and> set QUERY_RESTRICTED_SALESFORCE_OBJECTS \<inter> set QUERY_INCOMPATIBLE_SALESFORCE_OBJECTS = {}
   \<and> set UNSUPPORTED_BULK_API_SALESFORCE_OBJECTS \<inter> set QUERY_INCOMPATIBLE_SALESFORCE_OBJECTS
       = {''AttachedContentNote'', ''QuoteTemplateRichTextData''}"
proof (intro conjI)
  show "set UNSUPPORTED_BULK_API_SALESFORCE_OBJECTS \<inter> set QUERY_RESTRICTED_SALESFORCE_OBJECTS = {}"
    by (simp add: table_defs)
  show "set QUERY_RESTRICTED_SALESFORCE_OBJECTS \<inter> set QUERY_INCOMPATIBLE_SALESFORCE_OBJECTS = {}"
    by (simp add: table_defs)
  show "set UNSUPPORTED_BULK_API_SALESFORCE_OBJECTS \<inter> set QUERY_INCOMPATIBLE_SALESFORCE_OBJECTS
       = {''AttachedContentNote'', ''QuoteTemplateRichTextData''}"
    by (simp add: table_defs)
qed

text \<open>
  Claim C8 as stated fails: \<open>AttachedContentNote\<close> is in the bulk-unsupported table and in
  the query-incompatible table.
\<close>

theorem attached_content_note_in_two_tables:
  "''AttachedContentNote'' \<in> set UNSUPPORTED_BULK_API_SALESFORCE_OBJECTS
   \<and> ''AttachedContentNote'' \<in> set QUERY_INCOMPATIBLE_SALESFORCE_OBJECTS"
  by (simp add: table_defs)

text \<open>
  Claim C9. For a client whose strategy is \<open>BULK\<close>, \<open>get_blacklisted_objects\<close> returns
  the union of the bulk-unsupported, the query-restricted and the query-incompatible
  tables; for a client whose strategy is \<open>REST\<close> it returns the union of the
  query-restricted and the query-incompatible tables only; and the set for \<open>REST\<close> is a
  proper subset of the set for \<open>BULK\<close>. For a client whose strategy is none of \<open>REST\<close>,
  \<open>BULK\<close>, \<open>BULK2\<close>, both \<open>get_blacklisted_objects\<close> and \<open>get_blacklisted_fields\<close>
  raise the configuration error that names the strategy.
\<close>

theorem blacklist_by_strategy:
  "(api_type bulk = Some BULK_API_TYPE \<and> api_type rest = Some REST_API_TYPE
      \<longrightarrow> get_blacklisted_objects bulk
            = Inr (set UNSUPPORTED_BULK_API_SALESFORCE_OBJECTS
                     \<union> set QUERY_RESTRICTED_SALESFORCE_OBJECTS
                     \<union> set QUERY_INCOMPATIBLE_SALESFORCE_OBJECTS)
          \<and> get_blacklisted_objects rest
            = Inr (set QUERY_RESTRICTED_SALESFORCE_OBJECTS
                     \<union> set QUERY_INCOMPATIBLE_SALESFORCE_OBJECTS)
          \<and> set QUERY_RESTRICTED_SALESFORCE_OBJECTS
               \<union> set QUERY_INCOMPATIBLE_SALESFORCE_OBJECTS
             \<subset> set UNSUPPORTED_BULK_API_SALESFORCE_OBJECTS
                 \<union> set QUERY_RESTRICTED_SALESFORCE_OBJECTS
                 \<union> set QUERY_INCOMPATIBLE_SALESFORCE_OBJECTS)
   \<and> (api_type other \<notin> {Some REST_API_TYPE, Some BULK_API_TYPE, Some BULK2_API_TYPE}
      \<longrightarrow> get_blacklisted_objects other
            = Inl (TapSalesforceExceptionError
                     (''api_type should be REST or BULK was: ''
                        @ format_api_type (api_type other)))
          \<and> get_blacklisted_fields other
            = Inl (TapSalesforceExceptionError
                     (''api_type should be REST or BULK was: ''
                        @ format_api_type (api_type other))))"
proof (intro conjI impI)
  assume a: "api_type bulk = Some BULK_API_TYPE \<and> api_type rest = Some REST_API_TYPE"
  show "get_blacklisted_objects bulk
            = Inr (set UNSUPPORTED_BULK_API_SALESFORCE_OBJECTS
                     \<union> set QUERY_RESTRICTED_SALESFORCE_OBJECTS
                     \<union> set QUERY_INCOMPATIBLE_SALESFORCE_OBJECTS)"
    using a by (simp add: get_blacklisted_objects_def)
  show "get_blacklisted_objects rest
            = Inr (set QUERY_RESTRICTED_SALESFORCE_OBJECTS
                     \<union> set QUERY_INCOMPATIBLE_SALESFORCE_OBJECTS)"
    using a by (simp add: get_blacklisted_objects_def api_defs)
  have "''AssetTokenEvent'' \<in> set UNSUPPORTED_BULK_API_SALESFORCE_OBJECTS
                 \<union> set QUERY_RESTRICTED_SALESFORCE_OBJECTS
                 \<union> set QUERY_INCOMPATIBLE_SALESFORCE_OBJECTS"
    and "''AssetTokenEvent'' \<notin> set QUERY_RESTRICTED_SALESFORCE_OBJECTS
               \<union> set QUERY_INCOMPATIBLE_SALESFORCE_OBJECTS"
    using asset_token_event_bulk_only by simp_all
  then show "set QUERY_RESTRICTED_SALESFORCE_OBJECTS
               \<union> set QUERY_INCOMPATIBLE_SALESFORCE_OBJECTS
             \<subset> set UNSUPPORTED_BULK_API_SALESFORCE_OBJECTS
                 \<union> set QUERY_RESTRICTED_SALESFORCE_OBJECTS
                 \<union> set QUERY_INCOMPATIBLE_SALESFORCE_OBJECTS"
    by blast
next
  assume o: "api_type other \<notin> {Some REST_API_TYPE, Some BULK_API_TYPE, Some BULK2_API_TYPE}"
  show "get_blacklisted_objects other
            = Inl (TapSalesforceExceptionError
                     (''api_type should be REST or BULK was: ''
                        @ format_api_type (api_type other)))"
    using o by (simp add: get_blacklisted_objects_def)
  show "get_blacklisted_fields other
            = Inl (TapSalesforceExceptionError
                     (''api_type should be REST or BULK was: ''
                        @ format_api_type (api_type other)))"
    using o by (simp add: get_blacklisted_fields_def)
qed

text \<open>
  The claim at clients configured with \<open>BULK\<close>, \<open>REST\<close> and the unknown strategy
  \<open>SOAP\<close>.
\<close>

theorem blacklist_by_strategy_witness:
  "get_blacklisted_objects (new_client (Some ''BULK''))
     = Inr (set UNSUPPORTED_BULK_API_SALESFORCE_OBJECTS
              \<union> set QUERY_RESTRICTED_SALESFORCE_OBJECTS
              \<union> set QUERY_INCOMPATIBLE_SALESFORCE_OBJECTS)
   \<and> get_blacklisted_objects (new_client (Some ''REST''))
     = Inr (set QUERY_RESTRICTED_SALESFORCE_OBJECTS
              \<union> set QUERY_INCOMPATIBLE_SALESFORCE_OBJECTS)
   \<and> set QUERY_RESTRICTED_SALESFORCE_OBJECTS \<union> set QUERY_INCOMPATIBLE_SALESFORCE_OBJECTS
       \<subset> set UNSUPPORTED_BULK_API_SALESFORCE_OBJECTS
           \<union> set QUERY_RESTRICTED_SALESFORCE_OBJECTS
           \<union> set QUERY_INCOMPATIBLE_SALESFORCE_OBJECTS
   \<and> get_blacklisted_objects (new_client (Some ''SOAP''))
     = Inl (TapSalesforceExceptionError ''api_type should be REST or BULK was: SOAP'')
   \<and> get_blacklisted_fields (new_client (Some ''SOAP''))
     = Inl (TapSalesforceExceptionError ''api_type should be REST or BULK was: SOAP'')"
proof -
  have a: "api_type (new_client (Some ''BULK'')) = Some BULK_API_TYPE
           \<and> api_type (new_client (Some ''REST'')) = Some REST_API_TYPE"
    by (simp add: new_client_def api_defs)
  have b: "api_type (new_client (Some ''SOAP''))
             \<notin> {Some REST_API_TYPE, Some BULK_API_TYPE, Some BULK2_API_TYPE}"
    by (simp add: new_client_def api_defs)
  have c: "format_api_type (api_type (new_client (Some ''SOAP''))) = ''SOAP''"
    by (simp add: new_client_def format_api_type_def)
  from blacklist_by_strategy
         [of "new_client (Some ''BULK'')" "new_client (Some ''REST'')"
             "new_client (Some ''SOAP'')"] a b c
  show ?thesis
    by simp
qed

section \<open>Transport: the retry loop\<close>

lemma max_requests_error:
  "max_requests q a = Inl e \<Longrightarrow> e = ZeroDivisionError \<or> e = OverflowError \<or> e = ValueError"
  by (auto simp: max_requests_def num_mul_int_def num_true_divide_int_def int_true_divide_def
        float_of_int_def float_true_divide_def py_int_def
      split: pynum.splits sum.splits if_splits pyfloat.splits)

lemma check_rest_quota_usage_not_retried:
  assumes "check_rest_quota_usage self hs = Inl e"
  shows "\<not> retried e"
proof (cases "map_of hs ''Sforce-Limit-Info''")
  case None
  with assms show ?thesis
    by (auto simp: check_rest_quota_usage_def retried_def)
next
  case (Some info)
  show ?thesis
  proof (cases "re_search_api_usage info")
    case None
    with Some assms show ?thesis
      by (simp add: check_rest_quota_usage_def)
  next
    case match: (Some g)
    obtain g1 g2 where g: "g = (g1, g2)" by (cases g)
    from assms Some match g show ?thesis
      by (auto simp: check_rest_quota_usage_def retried_def Let_def
          split: sum.splits if_splits
          dest: percent_used_error max_requests_error)
  qed
qed

lemma make_request_body_retried:
  assumes "make_request_body self m sent = (Inl e, s')" and "retried e"
  shows "s' = self"
  using assms
  by (auto simp: make_request_body_def Let_def
      split: if_splits sum.splits dest: check_rest_quota_usage_not_retried)

lemma on_exception_stop:
  assumes "make_request_body self m (server (tries + 1)) = (r, s')"
    and "\<not> (\<exists>e. r = Inl e \<and> retried e \<and> tries + 1 < max_tries)"
  shows "on_exception tries self m server = (r, s', [])"
  using assms
  by (subst on_exception.simps) (auto split: sum.splits)

lemma on_exception_retry:
  assumes "make_request_body self m (server (tries + 1)) = (Inl e, s')"
    and "retried e" and "tries + 1 < max_tries"
  shows "on_exception tries self m server =
           (case on_exception (tries + 1) s' m server of
              (r, s2, logged) \<Rightarrow> (r, s2, (tries + 1) # logged))"
  using assms
  by (subst on_exception.simps) simp

text \<open>
  The loop from try \<open>tries + 1\<close> on, when the tries before \<open>n\<close> fail with a listed
  exception and try \<open>n\<close> is the last one allowed or ends in any other way.
\<close>

lemma on_exception_run:
  assumes "tries < n" and "n \<le> max_tries"
    and "\<forall>k. tries < k \<and> k < n \<longrightarrow>
           (\<exists>e. fst (make_request_body self m (server k)) = Inl e \<and> retried e)"
    and "make_request_body self m (server n) = (r, s')"
    and "n = max_tries \<or> \<not> (\<exists>e. r = Inl e \<and> retried e)"
  shows "on_exception tries self m server = (r, s', [tries + 1..<n])"
  using assms(1,3)
proof (induction "n - tries" arbitrary: tries)
  case 0
  then show ?case by simp
next
  case (Suc d)
  show ?case
  proof (cases "tries + 1 = n")
    case True
    with assms(4,5) on_exception_stop [of self m server tries r s']
    have "on_exception tries self m server = (r, s', [])"
      by auto
    with True show ?thesis by simp
  next
    case False
    with Suc.prems(1) have lt: "tries + 1 < n" by simp
    with Suc.prems(2) obtain e where
      e: "fst (make_request_body self m (server (tries + 1))) = Inl e" "retried e"
      by auto
    then have body: "make_request_body self m (server (tries + 1)) = (Inl e, self)"
      using make_request_body_retried [of self m "server (tries + 1)" e]
      by (cases "make_request_body self m (server (tries + 1))") auto
    have "on_exception (tries + 1) self m server = (r, s', [tries + 1 + 1..<n])"
      using Suc.hyps(2) lt Suc.prems(2) by (intro Suc.hyps(1)) auto
    moreover have "tries + 1 < max_tries"
      using lt assms(2) by simp
    ultimately show ?thesis
      using on_exception_retry [of self m server tries e self] body e(2) lt
      by (simp add: upt_conv_Cons)
  qed
qed

lemma on_exception_log:
  "length (snd (snd (on_exception tries self m server))) \<le> max_tries - (tries + 1)
   \<and> (\<forall>k \<in> set (snd (snd (on_exception tries self m server))).
         \<exists>e. fst (make_request_body self m (server k)) = Inl e \<and> retried e)"
proof (induction tries self m server rule: on_exception.induct)
  case (1 tries self m server)
  obtain r s1 where body: "make_request_body self m (server (tries + 1)) = (r, s1)"
    by (cases "make_request_body self m (server (tries + 1))")
  show ?case
  proof (cases "\<exists>e. r = Inl e \<and> retried e \<and> tries + 1 < max_tries")
    case False
    from on_exception_stop [of self m server tries r s1] body False
    show ?thesis by simp
  next
    case True
    then obtain e where e: "r = Inl e" "retried e" "tries + 1 < max_tries" by blast
    with body make_request_body_retried have s1: "s1 = self" by blast
    obtain r2 s2 l2 where rec: "on_exception (tries + 1) self m server = (r2, s2, l2)"
      by (cases "on_exception (tries + 1) self m server")
    have ih: "length l2 \<le> max_tries - (tries + 1 + 1)
        \<and> (\<forall>k \<in> set l2. \<exists>e. fst (make_request_body self m (server k)) = Inl e \<and> retried e)"
      using "1.IH" body e s1 rec by fastforce
    have "on_exception tries self m server = (r2, s2, (tries + 1) # l2)"
      using on_exception_retry [of self m server tries e s1] body e s1 rec by simp
    with ih body e show ?thesis by auto
  qed
qed

section \<open>Transport: claims\<close>

text \<open>
  Claim C6, as amended. \<open>_make_request\<close> calls its body at most ten times (it logs at
  most nine retries), and every retry follows a try that raised a connection error or the
  custom 406 error, which is what a response with status 406 and a reason containing
  \<open>CustomNotAcceptable\<close> raises. When all ten tries fail in that way, the error of the
  tenth try reaches the caller. When tries 1 to 3 raise a connection error and try 4
  returns a response, that response is returned after three retries. A response with a
  status from 400 to 599 that is not the retried 406 variant is logged and raised as an
  HTTP error on the first try, without a retry.
\<close>

theorem transport_retry:
  "length (snd (snd (make_request self m server))) < 10
   \<and> (\<forall>k \<in> set (snd (snd (make_request self m server))).
         \<exists>e. fst (make_request_body self m (server k)) = Inl e
              \<and> (e = ConnectionError \<or> e = SFDCCustomNotAcceptableError))
   \<and> ((m = ''GET'' \<or> m = ''POST'') \<and> status_code resp = 406
         \<and> contains ''CustomNotAcceptable'' (reason resp)
       \<longrightarrow> make_request_body self m (Inr resp) = (Inl SFDCCustomNotAcceptableError, self))
   \<and> ((\<forall>k \<in> {1..10}. \<exists>e. fst (make_request_body self m (server k)) = Inl e \<and> retried e)
       \<longrightarrow> make_request self m server
             = (fst (make_request_body self m (server 10)), self, [1..<10]))
   \<and> ((m = ''GET'' \<or> m = ''POST'') \<and> (\<forall>k \<in> {1, 2, 3}. server k = Inl ConnectionError)
         \<and> make_request_body self m (server 4) = (Inr resp, s')
       \<longrightarrow> make_request self m server = (Inr resp, s', [1, 2, 3]))
   \<and> ((m = ''GET'' \<or> m = ''POST'') \<and> server 1 = Inr resp
         \<and> 400 \<le> status_code resp \<and> status_code resp < 600
         \<and> \<not> (status_code resp = 406 \<and> contains ''CustomNotAcceptable'' (reason resp))
       \<longrightarrow> fst (raise_for_status resp)
           \<and> make_request self m server = (Inl (HTTPError (status_code resp)), self, []))"
proof (intro conjI impI)
  show "length (snd (snd (make_request self m server))) < 10"
    using on_exception_log [of 0 self m server]
    by (simp add: make_request_def max_tries_def)
next
  show "\<forall>k \<in> set (snd (snd (make_request self m server))).
         \<exists>e. fst (make_request_body self m (server k)) = Inl e
              \<and> (e = ConnectionError \<or> e = SFDCCustomNotAcceptableError)"
    using on_exception_log [of 0 self m server]
    by (simp add: make_request_def retried_def)
next
  assume "(m = ''GET'' \<or> m = ''POST'') \<and> status_code resp = 406
         \<and> contains ''CustomNotAcceptable'' (reason resp)"
  then show "make_request_body self m (Inr resp) = (Inl SFDCCustomNotAcceptableError, self)"
    by (auto simp: make_request_body_def raise_for_status_def)
next
  assume all: "\<forall>k \<in> {1..10}. \<exists>e. fst (make_request_body self m (server k)) = Inl e \<and> retried e"
  have "(10::nat) \<in> {1..10}" by simp
  with all obtain e where e: "fst (make_request_body self m (server 10)) = Inl e" "retried e"
    by blast
  then have last: "make_request_body self m (server 10) = (Inl e, self)"
    using make_request_body_retried [of self m "server 10" e]
    by (cases "make_request_body self m (server 10)") auto
  have "on_exception 0 self m server = (Inl e, self, [0 + 1..<10])"
    using all last by (intro on_exception_run) (auto simp: max_tries_def)
  with e show "make_request self m server
             = (fst (make_request_body self m (server 10)), self, [1..<10])"
    by (simp add: make_request_def)
next
  assume a: "(m = ''GET'' \<or> m = ''POST'') \<and> (\<forall>k \<in> {1, 2, 3}. server k = Inl ConnectionError)
         \<and> make_request_body self m (server 4) = (Inr resp, s')"
  have fail: "\<exists>e. fst (make_request_body self m (server k)) = Inl e \<and> retried e"
    if "0 < k \<and> k < 4" for k
  proof -
    from that have "k \<in> {1, 2, 3}" by auto
    with a have "server k = Inl ConnectionError" by blast
    with a show ?thesis
      by (auto simp: make_request_body_def retried_def)
  qed
  have "on_exception 0 self m server = (Inr resp, s', [0 + 1..<4])"
    using a fail by (intro on_exception_run) (auto simp: max_tries_def)
  moreover have "[Suc 0..<4] = [1, 2, 3]"
    by (simp add: upt_rec)
  ultimately show "make_request self m server = (Inr resp, s', [1, 2, 3])"
    by (simp add: make_request_def)
next
  assume a: "(m = ''GET'' \<or> m = ''POST'') \<and> server 1 = Inr resp
         \<and> 400 \<le> status_code resp \<and> status_code resp < 600
         \<and> \<not> (status_code resp = 406 \<and> contains ''CustomNotAcceptable'' (reason resp))"
  then show "fst (raise_for_status resp)"
    by (simp add: raise_for_status_def)
  from a have body: "make_request_body self m (server 1)
                       = (Inl (HTTPError (status_code resp)), self)"
    by (auto simp: make_request_body_def raise_for_status_def response_raise_for_status_def)
  have "on_exception 0 self m server = (Inl (HTTPError (status_code resp)), self, [0 + 1..<1])"
    using body by (intro on_exception_run) (auto simp: max_tries_def retried_def)
  then show "make_request self m server = (Inl (HTTPError (status_code resp)), self, [])"
    by (simp add: make_request_def)
qed

text \<open>
  The claim at four servers: one that always refuses the connection, one that answers
  the fourth try with status 200, one that answers with status 500, and a response with
  the retried 406 variant.
\<close>

theorem transport_retry_witness:
  "make_request (new_client (Some ''REST'')) ''GET'' (\<lambda>k. Inl ConnectionError)
     = (Inl ConnectionError, new_client (Some ''REST''), [1..<10])
   \<and> make_request (new_client (Some ''REST'')) ''GET''
       (\<lambda>k. if k < 4 then Inl ConnectionError
            else Inr \<lparr>status_code = 200, reason = ''OK'', headers = []\<rparr>)
     = (Inr \<lparr>status_code = 200, reason = ''OK'', headers = []\<rparr>,
        new_client (Some ''REST''), [1, 2, 3])
   \<and> make_request (new_client (Some ''REST'')) ''GET''
       (\<lambda>k. Inr \<lparr>status_code = 500, reason = ''Server Error'', headers = []\<rparr>)
     = (Inl (HTTPError 500), new_client (Some ''REST''), [])
   \<and> make_request_body (new_client (Some ''REST'')) ''GET''
       (Inr \<lparr>status_code = 406, reason = ''CustomNotAcceptable'', headers = []\<rparr>)
     = (Inl SFDCCustomNotAcceptableError, new_client (Some ''REST''))"
proof -
  let ?self = "new_client (Some ''REST'')"
  let ?ok = "\<lparr>status_code = 200, reason = ''OK'', headers = []\<rparr>"
  let ?down = "\<lambda>k::nat. (Inl ConnectionError :: error + response)"
  let ?late = "\<lambda>k::nat. if k < 4 then Inl ConnectionError else Inr ?ok"
  let ?bad = "\<lparr>status_code = 500, reason = ''Server Error'', headers = []\<rparr>"
  let ?na = "\<lparr>status_code = 406, reason = ''CustomNotAcceptable'', headers = []\<rparr>"
  have down: "make_request_body ?self ''GET'' (Inl ConnectionError) = (Inl ConnectionError, ?self)"
    by (simp add: make_request_body_def)
  have ok: "make_request_body ?self ''GET'' (?late 4) = (Inr ?ok, ?self)"
    by (simp add: make_request_body_def raise_for_status_200)
  have na: "contains ''CustomNotAcceptable'' (reason ?na)"
    by simp
  from transport_retry [of ?self "''GET''" ?down ?na ?self]
       transport_retry [of ?self "''GET''" ?late ?ok ?self]
       transport_retry [of ?self "''GET''" "\<lambda>k. Inr ?bad" ?bad ?self]
       down ok na
  show ?thesis
    by (simp add: retried_def)
qed

text \<open>
  Claim C6 as stated fails: a response with status 304 is not a 2xx response, it is logged,
  and \<open>_make_request\<close> returns it instead of raising an HTTP error.
\<close>

theorem not_modified_is_returned:
  "fst (raise_for_status \<lparr>status_code = 304, reason = ''Not Modified'', headers = []\<rparr>)
   \<and> make_request (new_client (Some ''REST'')) ''GET''
       (\<lambda>k. Inr \<lparr>status_code = 304, reason = ''Not Modified'', headers = []\<rparr>)
     = (Inr \<lparr>status_code = 304, reason = ''Not Modified'', headers = []\<rparr>,
        new_client (Some ''REST''), [])"
proof -
  let ?resp = "\<lparr>status_code = 304, reason = ''Not Modified'', headers = []\<rparr>"
  have body: "make_request_body (new_client (Some ''REST'')) ''GET'' (Inr ?resp)
                = (Inr ?resp, new_client (Some ''REST''))"
    by (simp add: make_request_body_def raise_for_status_def response_raise_for_status_def)
  have "on_exception 0 (new_client (Some ''REST'')) ''GET'' (\<lambda>k. Inr ?resp)
          = (Inr ?resp, new_client (Some ''REST''), [])"
    using on_exception_stop
            [of "new_client (Some ''REST'')" "''GET''" "\<lambda>k. Inr ?resp" 0 "Inr ?resp"
                "new_client (Some ''REST'')"] body
    by simp
  then show ?thesis
    by (simp add: make_request_def raise_for_status_def)
qed

section \<open>Query builder: claims\<close>






end
